theory Spec2Isabelle
  imports Complex_Main
begin

section \<open>Strings of the host language\<close>

text \<open>
  The parser of \<^verbatim>\<open>src/app/common/parser.ts\<close> works on JavaScript strings. They are
  modelled as \<^typ>\<open>string\<close>, one \<^typ>\<open>char\<close> per character, which is exact on the
  ASCII text that a contract or the test harness prints (markers, data URLs, base64,
  JSON, SVG and HTML markup). Indices are \<^typ>\<open>int\<close>, because the source relies on the
  value \<open>-1\<close> that \<^verbatim>\<open>indexOf\<close> and \<^verbatim>\<open>lastIndexOf\<close> return when nothing is found.
\<close>

definition startsWith :: "string \<Rightarrow> string \<Rightarrow> bool" where
  "startsWith s p = (take (length p) s = p)"

definition endsWith :: "string \<Rightarrow> string \<Rightarrow> bool" where
  "endsWith s p = (length p \<le> length s \<and> drop (length s - length p) s = p)"

text \<open>\<^verbatim>\<open>s.indexOf(p)\<close>: the least position where \<open>p\<close> starts, or \<open>-1\<close>.\<close>

fun indexOf :: "string \<Rightarrow> string \<Rightarrow> int" where
  "indexOf [] p = (if p = [] then 0 else - 1)"
| "indexOf (c # cs) p =
     (if startsWith (c # cs) p then 0
      else (let r = indexOf cs p in if r < 0 then - 1 else r + 1))"

text \<open>\<^verbatim>\<open>s.lastIndexOf(p)\<close>: the greatest position where \<open>p\<close> starts, or \<open>-1\<close>.\<close>

fun lastIndexOf :: "string \<Rightarrow> string \<Rightarrow> int" where
  "lastIndexOf [] p = (if p = [] then 0 else - 1)"
| "lastIndexOf (c # cs) p =
     (let r = lastIndexOf cs p in
      if 0 \<le> r then r + 1
      else if startsWith (c # cs) p then 0 else - 1)"

text \<open>
  \<^verbatim>\<open>s.substring(a, b)\<close>: both indices are clamped into \<open>0 .. length s\<close> and swapped when
  the first is the larger one; \<^verbatim>\<open>s.substring(a)\<close> runs to the end of the string.
\<close>

definition substring :: "string \<Rightarrow> int \<Rightarrow> int \<Rightarrow> string" where
  "substring s a b =
     (let n = int (length s);
          a' = max 0 (min a n);
          b' = max 0 (min b n);
          lo = min a' b';
          hi = max a' b'
      in take (nat (hi - lo)) (drop (nat lo) s))"

definition substring_from :: "string \<Rightarrow> int \<Rightarrow> string" where
  "substring_from s a = substring s a (int (length s))"

text \<open>The decimal numeral that string concatenation produces for a length.\<close>

definition digit_char :: "nat \<Rightarrow> char" where
  "digit_char d = char_of (48 + d)"

fun string_of_nat :: "nat \<Rightarrow> string" where
  "string_of_nat n =
     (if n < 10 then [digit_char n] else string_of_nat (n div 10) @ [digit_char (n mod 10)])"

declare string_of_nat.simps [simp del]

section \<open>The truncation helper\<close>

text \<open>
  \<^verbatim>\<open>
  function trim(content: string, trimSize: number) {
      if (content.length < trimSize) return content;
      return content.substring(0, trimSize) + '... (' + content.length + ' bytes total)'
  }
  \<close>
\<close>

definition trim :: "string \<Rightarrow> int \<Rightarrow> string" where
  "trim content trimSize =
     (if int (length content) < trimSize then content
      else substring content 0 trimSize
             @ ''... ('' @ string_of_nat (length content) @ '' bytes total)'')"

text \<open>
  \<^verbatim>\<open>s.toLocaleLowerCase()\<close>: the letters \<open>A\<close> to \<open>Z\<close> become \<open>a\<close> to \<open>z\<close>, every other
  character stays.
\<close>

definition lower_char :: "char \<Rightarrow> char" where
  "lower_char c =
     (let n = (of_char c :: nat) in if 65 \<le> n \<and> n \<le> 90 then char_of (n + 32) else c)"

definition toLocaleLowerCase :: "string \<Rightarrow> string" where
  "toLocaleLowerCase s = map lower_char s"

text \<open>
  White space as \<^verbatim>\<open>String.prototype.trim\<close> and \<^verbatim>\<open>parseInt\<close> skip it: tab, line feed,
  vertical tab, form feed, carriage return and space.
\<close>

definition is_ws :: "char \<Rightarrow> bool" where
  "is_ws c = (let n = (of_char c :: nat) in (9 \<le> n \<and> n \<le> 13) \<or> n = 32)"

definition trim_ws :: "string \<Rightarrow> string" where
  "trim_ws s = rev (dropWhile is_ws (rev (dropWhile is_ws s)))"

text \<open>
  \<^verbatim>\<open>parseInt(s)\<close> with no radix: leading white space is skipped, one sign is read, a
  prefix \<open>0x\<close> or \<open>0X\<close> selects radix 16, and the longest run of digits of the radix is
  the value; whatever follows is ignored. With no digit the result is \<open>NaN\<close>, here
  \<open>None\<close>. The value is an \<^typ>\<open>int\<close>, which is what the floating-point number of the
  source holds as long as it stays below \<open>2 ^ 53\<close>.
\<close>

definition digit_val :: "char \<Rightarrow> nat" where
  "digit_val c =
     (let n = (of_char c :: nat) in
      if 48 \<le> n \<and> n \<le> 57 then n - 48
      else if 97 \<le> n \<and> n \<le> 122 then n - 87
      else if 65 \<le> n \<and> n \<le> 90 then n - 55
      else 36)"

definition digits_value :: "nat \<Rightarrow> string \<Rightarrow> nat" where
  "digits_value R Z = foldl (\<lambda>acc c. acc * R + digit_val c) 0 Z"

definition parseInt :: "string \<Rightarrow> int option" where
  "parseInt str =
     (let S = dropWhile is_ws str;
          sign = (if S \<noteq> [] \<and> hd S = CHR ''-'' then - 1 else 1 :: int);
          S1 = (if S \<noteq> [] \<and> (hd S = CHR ''+'' \<or> hd S = CHR ''-'') then tl S else S);
          hex = (startsWith S1 ''0x'' \<or> startsWith S1 ''0X'');
          R = (if hex then 16 else 10 :: nat);
          S2 = (if hex then drop 2 S1 else S1);
          Z = takeWhile (\<lambda>c. digit_val c < R) S2
      in if Z = [] then None else Some (sign * int (digits_value R Z)))"

section \<open>Extraction of the text between two markers\<close>

text \<open>
  \<^verbatim>\<open>
  function getTextBetween(text: string, beginText: string, endText: string): string {
      let beginIndex = text.indexOf(beginText)
      let endIndex = text.lastIndexOf(endText)
      if (beginIndex < 0 || endIndex < 0) return ''
      let subStr = text.substring(beginIndex + beginText.length, endIndex)
      return subStr
  }
  \<close>
\<close>

definition getTextBetween :: "string \<Rightarrow> string \<Rightarrow> string \<Rightarrow> string" where
  "getTextBetween text beginText endText =
     (let beginIndex = indexOf text beginText;
          endIndex = lastIndexOf text endText
      in if beginIndex < 0 \<or> endIndex < 0 then []
         else substring text (beginIndex + int (length beginText)) endIndex)"





section \<open>Base64\<close>

text \<open>
  \<^verbatim>\<open>Base64.encode\<close> and \<^verbatim>\<open>Base64.decode\<close> come from the library \<^verbatim>\<open>js-base64\<close>. They are
  modelled as the base64 of RFC 4648 over the characters of the string read as bytes:
  three bytes become four characters of the alphabet, and a last group of one or two
  bytes is padded with \<open>=\<close>. Decoding first maps the URL-safe characters \<open>-\<close> and \<open>_\<close>
  to \<open>+\<close> and \<open>/\<close> and drops every character outside the alphabet (the padding
  too), as the library does, then turns four characters into three bytes.
\<close>

definition b64chs :: string where
  "b64chs = ''ABCDEFGHIJKLMNOPQRSTUVWXYZabcdefghijklmnopqrstuvwxyz0123456789+/''"

definition b64ch :: "nat \<Rightarrow> char" where
  "b64ch i = b64chs ! (i mod 64)"

fun Base64_encode :: "string \<Rightarrow> string" where
  "Base64_encode [] = []"
| "Base64_encode [c0] =
     (let a = (of_char c0 :: nat)
      in [b64ch (a div 4), b64ch ((a mod 4) * 16), CHR ''='', CHR ''=''])"
| "Base64_encode [c0, c1] =
     (let a = (of_char c0 :: nat); b = (of_char c1 :: nat)
      in [b64ch (a div 4), b64ch ((a mod 4) * 16 + b div 16), b64ch ((b mod 16) * 4),
          CHR ''=''])"
| "Base64_encode (c0 # c1 # c2 # rest) =
     (let a = (of_char c0 :: nat); b = (of_char c1 :: nat); c = (of_char c2 :: nat)
      in [b64ch (a div 4), b64ch ((a mod 4) * 16 + b div 16),
          b64ch ((b mod 16) * 4 + c div 64), b64ch (c mod 64)]
         @ Base64_encode rest)"

fun index_in :: "'a list \<Rightarrow> 'a \<Rightarrow> nat option" where
  "index_in [] x = None"
| "index_in (y # ys) x = (if x = y then Some 0 else map_option Suc (index_in ys x))"

definition unURI :: "char \<Rightarrow> char" where
  "unURI c = (if c = CHR ''-'' then CHR ''+'' else if c = CHR ''_'' then CHR ''/'' else c)"

definition b64tab :: "char \<Rightarrow> nat option" where
  "b64tab c = index_in b64chs (unURI c)"

fun decode_sextets :: "nat list \<Rightarrow> string" where
  "decode_sextets (s0 # s1 # s2 # s3 # rest) =
     [char_of (s0 * 4 + s1 div 16), char_of ((s1 mod 16) * 16 + s2 div 4),
      char_of ((s2 mod 4) * 64 + s3)] @ decode_sextets rest"
| "decode_sextets [s0, s1, s2] =
     [char_of (s0 * 4 + s1 div 16), char_of ((s1 mod 16) * 16 + s2 div 4)]"
| "decode_sextets [s0, s1] = [char_of (s0 * 4 + s1 div 16)]"
| "decode_sextets [s0] = []"
| "decode_sextets [] = []"

definition Base64_decode :: "string \<Rightarrow> string" where
  "Base64_decode s = decode_sextets (List.map_filter b64tab s)"

section \<open>The data model\<close>

datatype ContentType = SVG | JPG | PNG | HTML | Link | Unknown

text \<open>The optional \<open>label\<close> is \<open>None\<close> when the caller passes no attribute name.\<close>

record Content =
  label :: "string option"
  content :: string
  contentType :: ContentType

text \<open>
  What \<^verbatim>\<open>JSON.parse\<close> returns (the field \<open>json\<close> has the type \<^verbatim>\<open>any\<close>). An object is
  the list of its members; \<open>JNull\<close> also stands for the initial \<^verbatim>\<open>null\<close> of the
  variable \<open>json\<close>.
\<close>

datatype json_value =
    JNull
  | JBool bool
  | JNum rat
  | JStr string
  | JArr "json_value list"
  | JObj "(string \<times> json_value) list"

record ParsedOutput =
  gas :: int
  content :: "Content list"
  json :: json_value

text \<open>The result of the data-URL parser: the declared media type and the payload.\<close>

record MimeContent =
  mediaType :: string
  data :: string

text \<open>
  Every failure of the source is a thrown \<^verbatim>\<open>Error\<close>; the constructors name the four
  throw sites and keep what the message is built from.
  \<^item> \<open>InvalidGasFormat gasString output\<close>: \<^verbatim>\<open>'Invalid gas string. Expecting number, got: '\<close>;
  \<^item> \<open>InvalidJson message\<close>: the rethrow of \<open>parseJson\<close>;
  \<^item> \<open>NoRenderableAttribute json\<close>: \<^verbatim>\<open>'Invalid JSON. Content must be in image, ...'\<close>;
  \<^item> \<open>UnsupportedFormat label output\<close>: \<^verbatim>\<open>'Unsupported image format ...'\<close>, where the
    label is there when the message names the attribute;
  \<^item> \<open>TypeError\<close>: the run-time error of calling \<^verbatim>\<open>toLocaleLowerCase\<close> on a value that
    is not a string.
\<close>

datatype error =
    InvalidGasFormat string string
  | InvalidJson string
  | NoRenderableAttribute json_value
  | UnsupportedFormat "string option" string
  | TypeError

section \<open>The content decoder\<close>

text \<open>
  \<open>decodeOutput\<close> calls \<open>parseDataUrl\<close> of \<^verbatim>\<open>./data-url-parser\<close>; the decoder takes that
  parser as its first argument \<open>pdu\<close>. Lines 127 to 140 of the source compute the
  subtype, lines 142 to 152 map it to a content type.
\<close>

definition sniff_subtype :: "MimeContent option \<Rightarrow> string \<Rightarrow> string" where
  "sniff_subtype mimeContent output =
     (let outputLowercase = toLocaleLowerCase output in
      case mimeContent of
        Some m \<Rightarrow>
          (let subtype = substring_from (mediaType m) (lastIndexOf (mediaType m) ''/'' + 1)
           in if endsWith subtype ''+xml''
              then substring subtype 0 (int (length subtype) - 4)
              else subtype)
      | None \<Rightarrow>
          if startsWith outputLowercase ''<svg'' then ''svg''
          else if startsWith outputLowercase ''<html'' then ''html''
          else substring_from outputLowercase (lastIndexOf outputLowercase ''.'' + 1))"

definition classify :: "string \<Rightarrow> string \<Rightarrow> ContentType" where
  "classify subtype output =
     (if subtype = ''svg'' then SVG
      else if subtype = ''png'' then PNG
      else if subtype = ''jpg'' \<or> subtype = ''jpeg'' then JPG
      else if subtype = ''html'' then HTML
      else if startsWith output ''http'' then Link
      else Unknown)"

text \<open>The label as the error message shows it: an empty label is not named.\<close>

definition named_label :: "string option \<Rightarrow> string option" where
  "named_label lbl = (case lbl of None \<Rightarrow> None | Some l \<Rightarrow> if l = [] then None else Some l)"

definition decodeOutput ::
  "(string \<Rightarrow> MimeContent option) \<Rightarrow> string \<Rightarrow> string option \<Rightarrow> error + Content" where
  "decodeOutput pdu output lbl =
     (let outputLowercase = toLocaleLowerCase output;
          mimeContent = pdu output;
          subtype = sniff_subtype mimeContent output;
          cType = classify subtype output
      in if cType = Unknown then Inl (UnsupportedFormat (named_label lbl) output)
         else
           (let content0 =
                  (case mimeContent of
                     Some m \<Rightarrow> output
                   | None \<Rightarrow>
                       if startsWith outputLowercase ''http'' then output
                       else if startsWith outputLowercase ''<svg''
                       then ''data:image/svg+xml;base64,'' @ Base64_encode output
                       else output);
                content1 =
                  (if cType = HTML then
                     (if startsWith output ''data:text/html;base64,''
                      then Base64_decode (substring_from output 22)
                      else content0)
                   else if cType = SVG then
                     (if startsWith output ''data:image/svg+xml;utf8,''
                      then ''data:image/svg+xml;base64,''
                             @ Base64_encode (case mimeContent of Some m \<Rightarrow> data m | None \<Rightarrow> [])
                      else content0)
                   else content0)
            in Inr \<lparr>label = lbl, Content.content = content1, contentType = cType\<rparr>))"

section \<open>The function-output parser\<close>

text \<open>Truthiness of a parsed value, as the tests \<^verbatim>\<open>if (json)\<close> and \<^verbatim>\<open>if (json.image)\<close> read it.\<close>

fun truthy :: "json_value \<Rightarrow> bool" where
  "truthy JNull = False"
| "truthy (JBool b) = b"
| "truthy (JNum x) = (x \<noteq> 0)"
| "truthy (JStr s) = (s \<noteq> [])"
| "truthy (JArr xs) = True"
| "truthy (JObj kvs) = True"

text \<open>Reading a member; on a value that is no object the three attributes are undefined.\<close>

fun get_attr :: "json_value \<Rightarrow> string \<Rightarrow> json_value option" where
  "get_attr (JObj kvs) k = map_of kvs k"
| "get_attr j k = None"

fun update_member :: "string \<Rightarrow> json_value \<Rightarrow> (string \<times> json_value) list \<Rightarrow> (string \<times> json_value) list" where
  "update_member k v [] = [(k, v)]"
| "update_member k v ((k', v') # kvs) =
     (if k' = k then (k, v) # kvs else (k', v') # update_member k v kvs)"

fun set_attr :: "json_value \<Rightarrow> string \<Rightarrow> json_value \<Rightarrow> json_value" where
  "set_attr (JObj kvs) k v = JObj (update_member k v kvs)"
| "set_attr j k v = j"

text \<open>The test \<^verbatim>\<open>if (json.attr)\<close>: the attribute is there and truthy.\<close>

definition present :: "json_value \<Rightarrow> string \<Rightarrow> bool" where
  "present jsn attr = (case get_attr jsn attr of None \<Rightarrow> False | Some v \<Rightarrow> truthy v)"

text \<open>
  \<^verbatim>\<open>JSON.parse\<close> is the second argument of the parsers below: it returns the parsed
  value, or the message of the \<^verbatim>\<open>SyntaxError\<close> it throws. \<open>parseJson\<close> rethrows with
  \<^verbatim>\<open>e.message || e + '\n' + json\<close>.
\<close>

definition parseJson :: "(string \<Rightarrow> string + json_value) \<Rightarrow> string \<Rightarrow> error + json_value" where
  "parseJson JSON_parse jsonStr =
     (case JSON_parse jsonStr of
        Inr v \<Rightarrow> Inr v
      | Inl message \<Rightarrow>
          Inl (InvalidJson (if message \<noteq> [] then message
                            else ''SyntaxError'' @ [CHR 0x0A] @ jsonStr)))"

text \<open>
  One of the three blocks \<^verbatim>\<open>if (json.attr) { ... }\<close> of lines 82 to 98, on the state
  \<open>(json, content, contentFound)\<close>: a truthy attribute is decoded with its name as
  label, the result is pushed, and the attribute is overwritten by its trimmed text.
\<close>

definition decode_attribute ::
  "(string \<Rightarrow> MimeContent option) \<Rightarrow> int \<Rightarrow> string \<Rightarrow>
   json_value \<times> Content list \<times> bool \<Rightarrow> error + json_value \<times> Content list \<times> bool" where
  "decode_attribute pdu trimSize attr st =
     (case st of (jsn, cs, contentFound) \<Rightarrow>
        (case get_attr jsn attr of
           None \<Rightarrow> Inr st
         | Some v \<Rightarrow>
             if \<not> truthy v then Inr st
             else (case v of
                     JStr s \<Rightarrow>
                       (case decodeOutput pdu s (Some attr) of
                          Inl e \<Rightarrow> Inl e
                        | Inr c \<Rightarrow> Inr (set_attr jsn attr (JStr (trim s trimSize)), cs @ [c], True))
                   | _ \<Rightarrow> Inl TypeError)))"

text \<open>Lines 66 to 77: the value of the variable \<open>json\<close> before the branch.\<close>

definition json_of_output ::
  "(string \<Rightarrow> MimeContent option) \<Rightarrow> (string \<Rightarrow> string + json_value) \<Rightarrow> string \<Rightarrow>
   error + json_value" where
  "json_of_output pdu JSON_parse output =
     (case pdu output of
        Some mimeContent \<Rightarrow>
          if mediaType mimeContent = ''application/json''
          then parseJson JSON_parse (data mimeContent)
          else Inr JNull
      | None \<Rightarrow> Inr JNull)"

definition parseContractFunctionOutput ::
  "(string \<Rightarrow> MimeContent option) \<Rightarrow> (string \<Rightarrow> string + json_value) \<Rightarrow>
   string \<Rightarrow> int \<Rightarrow> int \<Rightarrow> error + ParsedOutput" where
  "parseContractFunctionOutput pdu JSON_parse output gs trimSize =
     (case json_of_output pdu JSON_parse output of
        Inl e \<Rightarrow> Inl e
      | Inr jsn \<Rightarrow>
          if truthy jsn then
            (case decode_attribute pdu trimSize ''image'' (jsn, [], False) of
               Inl e \<Rightarrow> Inl e
             | Inr st1 \<Rightarrow>
            (case decode_attribute pdu trimSize ''image_data'' st1 of
               Inl e \<Rightarrow> Inl e
             | Inr st2 \<Rightarrow>
            (case decode_attribute pdu trimSize ''animation_url'' st2 of
               Inl e \<Rightarrow> Inl e
             | Inr (jsn', cs, contentFound) \<Rightarrow>
                 if \<not> contentFound then Inl (NoRenderableAttribute jsn')
                 else Inr \<lparr>gas = gs, content = cs, json = jsn'\<rparr>)))
          else
            (case decodeOutput pdu output None of
               Inl e \<Rightarrow> Inl e
             | Inr c \<Rightarrow>
                 Inr \<lparr>gas = gs,
                      content = [\<lparr>label = None, Content.content = Content.content c,
                                  contentType = contentType c\<rparr>],
                      json = jsn\<rparr>))"

text \<open>
  What every attribute block keeps true of the state: once content is found the
  sequence is not empty, and no item in it is \<open>Unknown\<close>.
\<close>

definition state_ok :: "json_value \<times> Content list \<times> bool \<Rightarrow> bool" where
  "state_ok st = (case st of (jsn, cs, f) \<Rightarrow>
     (f \<longrightarrow> cs \<noteq> []) \<and> list_all (\<lambda>c. contentType c \<noteq> Unknown) cs)"

section \<open>The harness-output extractor\<close>

text \<open>
  \<^verbatim>\<open>
  export function parseTestOutput(output: string): ParsedOutput {
      let gasString = getTextBetween(output, '<NFT_GAS>', '</NFT_GAS>')
      let gas = parseInt(gasString)
      if (Number.isNaN(gas)) {
          throw new Error('Invalid gas string. Expecting number, got: ' + gasString + '\n' + output)
      }
      let content = getTextBetween(output, '<NFT_OUTPUT>', '</NFT_OUTPUT>').trim();
      return parseContractFunctionOutput(content, gas);
  }
  \<close>
  The call leaves \<open>trimSize\<close> at its default, 100.
\<close>

definition parseTestOutput ::
  "(string \<Rightarrow> MimeContent option) \<Rightarrow> (string \<Rightarrow> string + json_value) \<Rightarrow>
   string \<Rightarrow> error + ParsedOutput" where
  "parseTestOutput pdu JSON_parse output =
     (let gasString = getTextBetween output ''<NFT_GAS>'' ''</NFT_GAS>'' in
      case parseInt gasString of
        None \<Rightarrow> Inl (InvalidGasFormat gasString output)
      | Some g \<Rightarrow>
          parseContractFunctionOutput pdu JSON_parse
            (trim_ws (getTextBetween output ''<NFT_OUTPUT>'' ''</NFT_OUTPUT>'')) g 100)"

section \<open>The collaborators at concrete inputs\<close>

text \<open>
  Modelled from the spec: \<open>parseDataUrl\<close> of \<^verbatim>\<open>./data-url-parser\<close> is not among the
  sources. Section 4.4 of the specification gives its contract: a string of the shape
  \<^verbatim>\<open>data:[<mediaType>][;base64],<data>\<close> yields the media type (\<^verbatim>\<open>text/plain\<close> when it
  is omitted) and the payload, with base64 already decoded; any other string yields
  nothing. The theorems below hold for every data-URL parser; this one serves at
  concrete inputs.
\<close>

definition parseDataUrl :: "string \<Rightarrow> MimeContent option" where
  "parseDataUrl s =
     (if startsWith s ''data:'' \<and> CHR '','' \<in> set s then
        (let rest = drop 5 s;
             header = takeWhile (\<lambda>c. c \<noteq> CHR '','') rest;
             payload = drop (length header + 1) rest;
             base64 = endsWith header '';base64'';
             mt = (if base64 then take (length header - 7) header else header)
         in Some \<lparr>mediaType = (if mt = [] then ''text/plain'' else mt),
                  data = (if base64 then Base64_decode payload else payload)\<rparr>)
      else None)"

text \<open>
  \<^verbatim>\<open>JSON.parse\<close> on the three payloads used at concrete inputs below: an object with
  all three media attributes, an object with none of them, and the object of
  Example 2 of the specification.
\<close>

definition sample_JSON_parse :: "string \<Rightarrow> string + json_value" where
  \<open>sample_JSON_parse s =
     (if s = ''{"image":"a.png","image_data":"<svg/>","animation_url":"http://x.y/z"}''
      then Inr (JObj [(''image'', JStr ''a.png''), (''image_data'', JStr ''<svg/>''),
                      (''animation_url'', JStr ''http://x.y/z'')])
      else if s = ''{"name":"n"}'' then Inr (JObj [(''name'', JStr ''n'')])
      else if s = ''{"image":"<svg></svg>"}'' then Inr (JObj [(''image'', JStr ''<svg></svg>'')])
      else Inl ''Unexpected token'')\<close>

text \<open>A token URI whose JSON carries all three media attributes, and one with none.\<close>

definition sample_token_uri :: string where
  \<open>sample_token_uri =
     ''data:application/json,{"image":"a.png","image_data":"<svg/>","animation_url":"http://x.y/z"}''\<close>

definition sample_bare_uri :: string where
  \<open>sample_bare_uri = ''data:application/json,{"name":"n"}''\<close>

text \<open>A harness log, as in Example 1 of the specification, with blanks around the link.\<close>

definition sample_harness_log :: string where
  "sample_harness_log =
     ''<NFT_GAS>12345</NFT_GAS><NFT_OUTPUT> http://example.com/a.png </NFT_OUTPUT>''"

section \<open>Facts about the string primitives\<close>

lemma substring_0: "substring s 0 b = take (nat b) s"
  by (cases "b \<le> int (length s)") (auto simp: substring_def Let_def min_def max_def)

lemma startsWith_Nil [simp]: "startsWith s [] = True"
  by (simp add: startsWith_def)

lemma startsWith_Nil_Cons [simp]: "startsWith [] (p # ps) = False"
  by (simp add: startsWith_def)

lemma startsWith_Cons [simp]: "startsWith (x # xs) (p # ps) = (x = p \<and> startsWith xs ps)"
  by (auto simp: startsWith_def)

lemma startsWith_append: "startsWith (p @ s) p"
  by (simp add: startsWith_def)

lemma startsWith_iff: "startsWith s p = (\<exists>r. s = p @ r)"
  unfolding startsWith_def
  by (metis append_eq_conv_conj append_take_drop_id)

section \<open>Base64 decoding inverts encoding\<close>






lemma index_in_None: "x \<notin> set xs \<Longrightarrow> index_in xs x = None"
  by (induction xs) auto


















section \<open>Facts about the content decoder\<close>

lemma startsWith_hd: "startsWith s (p # ps) \<Longrightarrow> s \<noteq> [] \<and> hd s = p"
  by (cases s) auto

lemma startsWith_map: "startsWith s p \<Longrightarrow> startsWith (map f s) (map f p)"
  by (auto simp: startsWith_iff)

lemma of_char_lower_char:
  "(of_char (lower_char c) :: nat) =
     (if 65 \<le> (of_char c :: nat) \<and> (of_char c :: nat) \<le> 90 then of_char c + 32 else of_char c)"
  by (simp add: lower_char_def Let_def)

lemma lower_char_fixed:
  assumes "(of_char d :: nat) < 97 \<or> 122 < (of_char d :: nat)"
    and "(of_char d :: nat) < 65 \<or> 90 < (of_char d :: nat)"
  shows "lower_char c = d \<longleftrightarrow> c = d"
proof
  assume "lower_char c = d"
  then have "(of_char (lower_char c) :: nat) = of_char d" by simp
  with assms have "(of_char c :: nat) = of_char d"
    by (auto simp: of_char_lower_char split: if_splits)
  then show "c = d" by simp
next
  assume "c = d"
  with assms show "lower_char c = d"
    by (auto simp: lower_char_def Let_def)
qed

lemma lower_char_lt [simp]: "lower_char c = CHR ''<'' \<longleftrightarrow> c = CHR ''<''"
  by (rule lower_char_fixed) simp_all

lemma lower_char_dot [simp]: "lower_char c = CHR ''.'' \<longleftrightarrow> c = CHR ''.''"
  by (rule lower_char_fixed) simp_all

lemma lower_http: "toLocaleLowerCase ''http'' = ''http''"
  by code_simp

lemma startsWith_lower_http:
  "startsWith output ''http'' \<Longrightarrow> startsWith (toLocaleLowerCase output) ''http''"
  using startsWith_map [of "output" "''http''" lower_char] lower_http
  by (simp add: toLocaleLowerCase_def)




lemma classify_svg: "classify ''svg'' output = SVG"
  by (simp add: classify_def)

lemma classify_html: "classify ''html'' output = HTML"
  by (simp add: classify_def)

lemma svg_xml_subtype:
  "mediaType m = ''image/svg+xml'' \<Longrightarrow> sniff_subtype (Some m) output = ''svg''"
proof -
  assume m: "mediaType m = ''image/svg+xml''"
  have "(let subtype = substring_from ''image/svg+xml'' (lastIndexOf ''image/svg+xml'' ''/'' + 1)
         in if endsWith subtype ''+xml''
            then substring subtype 0 (int (length subtype) - 4)
            else subtype) = ''svg''"
    by code_simp
  then show ?thesis
    by (simp only: sniff_subtype_def m Let_def option.case)
qed

lemma lastIndexOf_lower_dot:
  "lastIndexOf (toLocaleLowerCase s) ''.'' = lastIndexOf s ''.''"
  by (induction s) (simp_all add: toLocaleLowerCase_def Let_def)

lemma substring_map: "substring (map f s) a b = map f (substring s a b)"
  by (simp add: substring_def Let_def take_map drop_map)

lemma substring_from_lower:
  "substring_from (toLocaleLowerCase s) a = toLocaleLowerCase (substring_from s a)"
  by (simp add: substring_from_def toLocaleLowerCase_def substring_map)

section \<open>Facts about the function-output parser\<close>

lemma decodeOutput_Inr:
  "decodeOutput pdu output lbl = Inr c \<Longrightarrow> contentType c \<noteq> Unknown \<and> label c = lbl"
  unfolding decodeOutput_def Let_def
  by (auto split: if_splits)


lemma decodeOutput_Unknown:
  "classify (sniff_subtype (pdu output) output) output = Unknown \<Longrightarrow>
   decodeOutput pdu output lbl = Inl (UnsupportedFormat (named_label lbl) output)"
  unfolding decodeOutput_def Let_def
  by simp

lemma map_of_update_member:
  "map_of (update_member k v kvs) k' = (if k' = k then Some v else map_of kvs k')"
  by (induction kvs) auto

lemma get_attr_set_attr_other:
  "k' \<noteq> k \<Longrightarrow> get_attr (set_attr j k v) k' = get_attr j k'"
  by (cases j) (simp_all add: map_of_update_member)

lemma get_attr_set_attr_same:
  "get_attr j k = Some w \<Longrightarrow> get_attr (set_attr j k v) k = Some v"
  by (cases j) (simp_all add: map_of_update_member)

lemma decode_attribute_absent:
  "get_attr jsn attr = None \<Longrightarrow> decode_attribute pdu t attr (jsn, cs, f) = Inr (jsn, cs, f)"
  by (simp add: decode_attribute_def)

lemma decode_attribute_falsy:
  "get_attr jsn attr = Some v \<Longrightarrow> \<not> truthy v \<Longrightarrow>
   decode_attribute pdu t attr (jsn, cs, f) = Inr (jsn, cs, f)"
  by (simp add: decode_attribute_def)

lemma decode_attribute_string:
  "get_attr jsn attr = Some (JStr s) \<Longrightarrow> s \<noteq> [] \<Longrightarrow>
   decode_attribute pdu t attr (jsn, cs, f) =
     (case decodeOutput pdu s (Some attr) of
        Inl e \<Rightarrow> Inl e
      | Inr c \<Rightarrow> Inr (set_attr jsn attr (JStr (trim s t)), cs @ [c], True))"
  by (simp add: decode_attribute_def)

lemma decode_attribute_not_string:
  "get_attr jsn attr = Some v \<Longrightarrow> truthy v \<Longrightarrow> (\<forall>s. v \<noteq> JStr s) \<Longrightarrow>
   decode_attribute pdu t attr (jsn, cs, f) = Inl TypeError"
  by (cases v) (simp_all add: decode_attribute_def)

lemma decode_attribute_cases:
  assumes "decode_attribute pdu t attr (jsn, cs, f) = Inr (jsn', cs', f')"
  shows "(jsn' = jsn \<and> cs' = cs \<and> f' = f \<and>
            (get_attr jsn attr = None \<or> (\<exists>v. get_attr jsn attr = Some v \<and> \<not> truthy v))) \<or>
         (\<exists>s c. get_attr jsn attr = Some (JStr s) \<and> s \<noteq> [] \<and>
            decodeOutput pdu s (Some attr) = Inr c \<and>
            jsn' = set_attr jsn attr (JStr (trim s t)) \<and> cs' = cs @ [c] \<and> f')"
proof (cases "get_attr jsn attr")
  case None
  with assms show ?thesis by (simp add: decode_attribute_absent)
next
  case (Some v)
  show ?thesis
  proof (cases "truthy v")
    case False
    with Some assms show ?thesis by (simp add: decode_attribute_falsy)
  next
    case True
    show ?thesis
    proof (cases "\<exists>s. v = JStr s")
      case False
      with Some True assms show ?thesis by (simp add: decode_attribute_not_string)
    next
      case True
      then obtain s where s: "v = JStr s" by blast
      with \<open>truthy v\<close> have ne: "s \<noteq> []" by simp
      from Some s have g: "get_attr jsn attr = Some (JStr s)" by simp
      from assms show ?thesis
        unfolding decode_attribute_string [OF g ne]
        using g ne by (auto split: sum.splits)
    qed
  qed
qed


lemma decode_attribute_state_ok:
  assumes "decode_attribute pdu t attr st = Inr st'" and "state_ok st"
  shows "state_ok st'"
proof -
  obtain jsn cs f where st: "st = (jsn, cs, f)" by (cases st) auto
  obtain jsn' cs' f' where st': "st' = (jsn', cs', f')" by (cases st') auto
  from decode_attribute_cases [OF assms(1) [unfolded st st']] assms(2)
  show ?thesis
    unfolding st st' state_ok_def
    by (auto dest: decodeOutput_Inr)
qed


lemma json_branch_result:
  assumes "json_of_output pdu JP output = Inr jsn" and "truthy jsn"
    and "parseContractFunctionOutput pdu JP output g t = Inr r"
  shows "\<exists>st1 st2 jsn' cs.
           decode_attribute pdu t ''image'' (jsn, [], False) = Inr st1 \<and>
           decode_attribute pdu t ''image_data'' st1 = Inr st2 \<and>
           decode_attribute pdu t ''animation_url'' st2 = Inr (jsn', cs, True) \<and>
           r = \<lparr>gas = g, content = cs, json = jsn'\<rparr>"
  using assms(3) unfolding parseContractFunctionOutput_def assms(1) using assms(2)
  by (auto split: sum.splits prod.splits if_splits)

lemma plain_branch_result:
  assumes "json_of_output pdu JP output = Inr jsn" and "\<not> truthy jsn"
  shows "parseContractFunctionOutput pdu JP output g t =
           (case decodeOutput pdu output None of
              Inl e \<Rightarrow> Inl e
            | Inr c \<Rightarrow>
                Inr \<lparr>gas = g,
                     content = [\<lparr>label = None, Content.content = Content.content c,
                                 contentType = contentType c\<rparr>],
                     json = jsn\<rparr>)"
  unfolding parseContractFunctionOutput_def assms(1) using assms(2)
  by simp

lemma parseContractFunctionOutput_Inr:
  assumes "parseContractFunctionOutput pdu JP output g t = Inr r"
  shows "gas r = g \<and> content r \<noteq> [] \<and> list_all (\<lambda>c. contentType c \<noteq> Unknown) (content r)"
proof (cases "json_of_output pdu JP output")
  case (Inl e)
  with assms show ?thesis
    by (simp add: parseContractFunctionOutput_def)
next
  case (Inr jsn)
  show ?thesis
  proof (cases "truthy jsn")
    case True
    from json_branch_result [OF Inr True assms] obtain st1 st2 jsn' cs where
      1: "decode_attribute pdu t ''image'' (jsn, [], False) = Inr st1" and
      2: "decode_attribute pdu t ''image_data'' st1 = Inr st2" and
      3: "decode_attribute pdu t ''animation_url'' st2 = Inr (jsn', cs, True)" and
      r: "r = \<lparr>gas = g, content = cs, json = jsn'\<rparr>"
      by blast
    have "state_ok (jsn, [], False)"
      by (simp add: state_ok_def)
    with 1 have "state_ok st1" by (rule decode_attribute_state_ok)
    with 2 have "state_ok st2" by (rule decode_attribute_state_ok)
    with 3 have "state_ok (jsn', cs, True)" by (rule decode_attribute_state_ok)
    with r show ?thesis by (simp add: state_ok_def)
  next
    case False
    from assms show ?thesis
      unfolding plain_branch_result [OF Inr False]
      by (auto split: sum.splits dest: decodeOutput_Inr)
  qed
qed


lemma no_attribute_fails:
  assumes "json_of_output pdu JP output = Inr jsn" and "truthy jsn"
    and "\<not> present jsn ''image''" "\<not> present jsn ''image_data''"
        "\<not> present jsn ''animation_url''"
  shows "parseContractFunctionOutput pdu JP output g t = Inl (NoRenderableAttribute jsn)"
proof -
  have skip: "decode_attribute pdu t attr (jsn, [], False) = Inr (jsn, [], False)"
    if "\<not> present jsn attr" for attr
    using that
    by (cases "get_attr jsn attr")
      (auto simp: present_def decode_attribute_absent decode_attribute_falsy)
  show ?thesis
    unfolding parseContractFunctionOutput_def assms(1)
    using assms(2) by (simp add: skip assms(3-5))
qed

lemma plain_branch_single:
  assumes "json_of_output pdu JP output = Inr jsn" and "\<not> truthy jsn"
    and "parseContractFunctionOutput pdu JP output g t = Inr r"
  shows "\<exists>c. decodeOutput pdu output None = Inr c \<and>
             content r = [\<lparr>label = None, Content.content = Content.content c,
                           contentType = contentType c\<rparr>] \<and> json r = jsn"
  using assms(3) unfolding plain_branch_result [OF assms(1,2)]
  by (auto split: sum.splits)

lemma trim_cases:
  "trim s t = (if t \<le> int (length s)
               then take (nat t) s @ ''... ('' @ string_of_nat (length s) @ '' bytes total)''
               else s)"
  by (simp add: trim_def substring_0)

lemma decode_attribute_present:
  assumes "decode_attribute pdu t attr (jsn, cs, f) = Inr (jsn', cs', f')"
    and "present jsn attr"
  shows "\<exists>s c. get_attr jsn attr = Some (JStr s) \<and>
           decodeOutput pdu s (Some attr) = Inr c \<and>
           jsn' = set_attr jsn attr (JStr (trim s t)) \<and> cs' = cs @ [c] \<and> f'"
  using decode_attribute_cases [OF assms(1)] assms(2)
  by (auto simp: present_def)

section \<open>Facts about the marker extraction and the harness parser\<close>
























lemma parseTestOutput_Inr:
  assumes "parseTestOutput pdu JP output = Inr r"
  shows "\<exists>g. parseInt (getTextBetween output ''<NFT_GAS>'' ''</NFT_GAS>'') = Some g \<and>
             parseContractFunctionOutput pdu JP
               (trim_ws (getTextBetween output ''<NFT_OUTPUT>'' ''</NFT_OUTPUT>'')) g 100 = Inr r"
  using assms unfolding parseTestOutput_def Let_def
  by (auto split: option.splits)


section \<open>The examples of the specification\<close>

text \<open>
  The three examples of section 8 of the specification, run on the definitions above
  with the data-URL parser of section 4.4.
\<close>

lemma example_harness_log:
  "parseTestOutput parseDataUrl sample_JSON_parse
     ''<NFT_GAS>12345</NFT_GAS><NFT_OUTPUT>http://example.com/a.png</NFT_OUTPUT>'' =
     Inr \<lparr>gas = 12345,
          content = [\<lparr>label = None, Content.content = ''http://example.com/a.png'',
                      contentType = PNG\<rparr>],
          json = JNull\<rparr>"
  by code_simp

lemma example_json_image:
  \<open>parseContractFunctionOutput parseDataUrl sample_JSON_parse
     ''data:application/json,{"image":"<svg></svg>"}'' 0 100 =
     Inr \<lparr>gas = 0,
          content = [\<lparr>label = Some ''image'',
                      Content.content = ''data:image/svg+xml;base64,PHN2Zz48L3N2Zz4='',
                      contentType = SVG\<rparr>],
          json = JObj [(''image'', JStr ''<svg></svg>'')]\<rparr>\<close>
  by code_simp

lemma example_unknown_extension:
  "parseContractFunctionOutput parseDataUrl sample_JSON_parse ''foo.xyz'' 0 100 =
     Inl (UnsupportedFormat None ''foo.xyz'')"
  by code_simp

section \<open>Claims about the truncation helper\<close>

text \<open>
  C4, as the specification states it, says that a string whose length is exactly
  \<open>trimSize\<close> comes back unchanged. The guard of \<open>trim\<close> is the strict comparison
  \<open>length < trimSize\<close>, so such a string takes the truncation branch: at the string
  \<open>abc\<close> and \<open>trimSize = 3\<close> the result carries the length annotation.
\<close>

theorem trim_boundary_counterexample:
  "int (length ''abc'') = 3 \<and> trim ''abc'' 3 = ''abc... (3 bytes total)'' \<and> trim ''abc'' 3 \<noteq> ''abc''"
  by code_simp

text \<open>
  C4 (amended): a string of length exactly \<open>trimSize\<close> is returned whole, followed by
  the annotation of its total length, and a string of length \<open>trimSize + 1\<close> is
  returned as its first \<open>trimSize\<close> characters followed by that annotation.
\<close>

theorem trim_boundary:
  "(int (length s) = n \<longrightarrow>
      trim s n = s @ ''... ('' @ string_of_nat (length s) @ '' bytes total)'') \<and>
   (int (length s) = n + 1 \<longrightarrow>
      trim s n = take (nat n) s @ ''... ('' @ string_of_nat (length s) @ '' bytes total)'')"
  by (auto simp: trim_def substring_0)

theorem trim_boundary_witness:
  "int (length ''abc'') = 3 \<and> trim ''abc'' 3 = ''abc... (3 bytes total)'' \<and>
   int (length ''abcd'') = 3 + 1 \<and> trim ''abcd'' 3 = ''abc... (4 bytes total)''"
proof -
  have a: "int (length ''abc'') = 3" and b: "int (length ''abcd'') = 3 + 1"
    by simp_all
  have c: "''abc'' @ ''... ('' @ string_of_nat (length ''abc'') @ '' bytes total)''
             = ''abc... (3 bytes total)''"
    by code_simp
  have d: "take (nat 3) ''abcd'' @ ''... ('' @ string_of_nat (length ''abcd'') @ '' bytes total)''
             = ''abc... (4 bytes total)''"
    by code_simp
  from trim_boundary [of "''abc''" 3] a
  have "trim ''abc'' 3 = ''abc'' @ ''... ('' @ string_of_nat (length ''abc'') @ '' bytes total)''"
    by blast
  then have e: "trim ''abc'' 3 = ''abc... (3 bytes total)''"
    by (simp only: c)
  from trim_boundary [of "''abcd''" 3] b
  have "trim ''abcd'' 3 = take (nat 3) ''abcd'' @ ''... ('' @ string_of_nat (length ''abcd'') @ '' bytes total)''"
    by blast
  then have f: "trim ''abcd'' 3 = ''abc... (4 bytes total)''"
    by (simp only: d)
  from a b e f show ?thesis
    by blast
qed

section \<open>Claims about the content decoder\<close>



text \<open>
  C8: an input of the form \<open>data:image/svg+xml;base64,B\<close>, which the data-URL parser
  reads as a data URL of media type \<open>image/svg+xml\<close>, comes back as it is, with the
  content type \<open>SVG\<close>.
\<close>

theorem canonical_svg_idempotent:
  assumes "pdu output = Some m"
    and "mediaType m = ''image/svg+xml''"
    and "output = ''data:image/svg+xml;base64,'' @ B"
  shows "decodeOutput pdu output lbl =
           Inr \<lparr>label = lbl, Content.content = output, contentType = SVG\<rparr>"
proof -
  from assms(3) have no_utf8: "\<not> startsWith output ''data:image/svg+xml;utf8,''"
    by simp
  show ?thesis
    unfolding decodeOutput_def Let_def assms(1) svg_xml_subtype [OF assms(2)] classify_svg
    using no_utf8 by simp
qed

theorem canonical_svg_idempotent_witness:
  "parseDataUrl ''data:image/svg+xml;base64,PHN2Zz48L3N2Zz4='' =
     Some \<lparr>mediaType = ''image/svg+xml'', data = ''<svg></svg>''\<rparr> \<and>
   mediaType \<lparr>mediaType = ''image/svg+xml'', data = ''<svg></svg>''\<rparr> = ''image/svg+xml'' \<and>
   decodeOutput parseDataUrl ''data:image/svg+xml;base64,PHN2Zz48L3N2Zz4='' (Some ''image'') =
     Inr \<lparr>label = Some ''image'',
          Content.content = ''data:image/svg+xml;base64,PHN2Zz48L3N2Zz4='',
          contentType = SVG\<rparr>"
proof -
  have a: "parseDataUrl ''data:image/svg+xml;base64,PHN2Zz48L3N2Zz4='' =
     Some \<lparr>mediaType = ''image/svg+xml'', data = ''<svg></svg>''\<rparr>"
    by code_simp
  have b: "mediaType \<lparr>mediaType = ''image/svg+xml'', data = ''<svg></svg>''\<rparr> = ''image/svg+xml''"
    by simp
  have c: "''data:image/svg+xml;base64,PHN2Zz48L3N2Zz4='' =
             ''data:image/svg+xml;base64,'' @ ''PHN2Zz48L3N2Zz4=''"
    by simp
  from canonical_svg_idempotent [of parseDataUrl "''data:image/svg+xml;base64,PHN2Zz48L3N2Zz4=''" _ "''PHN2Zz48L3N2Zz4=''" "Some ''image''", OF a b c] a b show ?thesis
    by blast
qed




text \<open>
  C10: an input that is no data URL, starts with \<open>http\<close> and whose text after the last
  \<open>.\<close> is \<open>html\<close> once lowercased is classified as \<open>HTML\<close>, not as \<open>Link\<close>, and the
  content is the input itself.
\<close>

theorem http_html_extension:
  assumes "pdu output = None"
    and "startsWith output ''http''"
    and "toLocaleLowerCase (substring_from output (lastIndexOf output ''.'' + 1)) = ''html''"
  shows "decodeOutput pdu output lbl =
           Inr \<lparr>label = lbl, Content.content = output, contentType = HTML\<rparr>"
proof -
  from assms(2) have low: "startsWith (toLocaleLowerCase output) ''http''"
    by (rule startsWith_lower_http)
  then have no_svg: "\<not> startsWith (toLocaleLowerCase output) ''<svg''"
    and no_html: "\<not> startsWith (toLocaleLowerCase output) ''<html''"
    by (cases "toLocaleLowerCase output"; auto)+
  from assms(2) have no_data: "\<not> startsWith output ''data:text/html;base64,''"
    by (cases "output") auto
  from assms(3) have sub: "sniff_subtype None output = ''html''"
    using no_svg no_html
    by (simp add: sniff_subtype_def Let_def lastIndexOf_lower_dot substring_from_lower)
  show ?thesis
    unfolding decodeOutput_def Let_def assms(1) sub classify_html
    using low no_data by simp
qed

theorem http_html_extension_witness:
  "parseDataUrl ''http://example.com/page.html'' = None \<and>
   startsWith ''http://example.com/page.html'' ''http'' \<and>
   toLocaleLowerCase (substring_from ''http://example.com/page.html''
     (lastIndexOf ''http://example.com/page.html'' ''.'' + 1)) = ''html'' \<and>
   decodeOutput parseDataUrl ''http://example.com/page.html'' None =
     Inr \<lparr>label = None, Content.content = ''http://example.com/page.html'',
          contentType = HTML\<rparr>"
proof -
  have a: "parseDataUrl ''http://example.com/page.html'' = None"
    by code_simp
  have b: "startsWith ''http://example.com/page.html'' ''http''"
    by code_simp
  have c: "toLocaleLowerCase (substring_from ''http://example.com/page.html''
     (lastIndexOf ''http://example.com/page.html'' ''.'' + 1)) = ''html''"
    by code_simp
  from http_html_extension [of parseDataUrl "''http://example.com/page.html''" None, OF a b c] a b c show ?thesis
    by blast
qed

section \<open>Claims about the function-output parser\<close>

text \<open>
  C1: when the input is a data URL of media type \<open>application/json\<close> whose payload
  parses to an object in which \<open>image\<close>, \<open>image_data\<close> and \<open>animation_url\<close> are all
  present and truthy, a returned result has exactly three content items, the decodings
  of the three attributes in that order, each labelled with its attribute name, and in
  the returned \<open>json\<close> each of the three values is the first \<open>trimSize\<close> characters
  followed by the length annotation if its length is at least \<open>trimSize\<close>, and the
  value itself otherwise.
\<close>

theorem json_three_attributes:
  assumes "pdu output = Some m"
    and "mediaType m = ''application/json''"
    and "JP (data m) = Inr (JObj kvs)"
    and "present (JObj kvs) ''image''"
    and "present (JObj kvs) ''image_data''"
    and "present (JObj kvs) ''animation_url''"
    and "parseContractFunctionOutput pdu JP output g t = Inr r"
  shows "\<exists>s1 s2 s3 c1 c2 c3.
           get_attr (JObj kvs) ''image'' = Some (JStr s1) \<and>
           get_attr (JObj kvs) ''image_data'' = Some (JStr s2) \<and>
           get_attr (JObj kvs) ''animation_url'' = Some (JStr s3) \<and>
           decodeOutput pdu s1 (Some ''image'') = Inr c1 \<and>
           decodeOutput pdu s2 (Some ''image_data'') = Inr c2 \<and>
           decodeOutput pdu s3 (Some ''animation_url'') = Inr c3 \<and>
           content r = [c1, c2, c3] \<and>
           length (content r) = 3 \<and>
           map label (content r) = [Some ''image'', Some ''image_data'', Some ''animation_url''] \<and>
           get_attr (json r) ''image'' =
             Some (JStr (if t \<le> int (length s1)
                         then take (nat t) s1 @ ''... ('' @ string_of_nat (length s1) @ '' bytes total)''
                         else s1)) \<and>
           get_attr (json r) ''image_data'' =
             Some (JStr (if t \<le> int (length s2)
                         then take (nat t) s2 @ ''... ('' @ string_of_nat (length s2) @ '' bytes total)''
                         else s2)) \<and>
           get_attr (json r) ''animation_url'' =
             Some (JStr (if t \<le> int (length s3)
                         then take (nat t) s3 @ ''... ('' @ string_of_nat (length s3) @ '' bytes total)''
                         else s3))"
proof -
  let ?j = "JObj kvs"
  have j: "json_of_output pdu JP output = Inr ?j"
    by (simp add: json_of_output_def assms(1-3) parseJson_def)
  have tr: "truthy ?j" by simp
  from json_branch_result [OF j tr assms(7)] obtain st1 st2 jsn' cs where
    1: "decode_attribute pdu t ''image'' (?j, [], False) = Inr st1" and
    2: "decode_attribute pdu t ''image_data'' st1 = Inr st2" and
    3: "decode_attribute pdu t ''animation_url'' st2 = Inr (jsn', cs, True)" and
    r: "r = \<lparr>gas = g, content = cs, json = jsn'\<rparr>"
    by blast
  obtain j1 cs1 f1 where st1: "st1 = (j1, cs1, f1)" by (cases st1) auto
  obtain j2 cs2 f2 where st2: "st2 = (j2, cs2, f2)" by (cases st2) auto
  from decode_attribute_present [OF 1 [unfolded st1] assms(4)] obtain s1 c1 where
    g1: "get_attr ?j ''image'' = Some (JStr s1)" and
    d1: "decodeOutput pdu s1 (Some ''image'') = Inr c1" and
    j1: "j1 = set_attr ?j ''image'' (JStr (trim s1 t))" and
    cs1: "cs1 = [c1]"
    by auto
  have p2: "present j1 ''image_data''"
    using assms(5) by (simp add: present_def j1 get_attr_set_attr_other del: set_attr.simps get_attr.simps)
  from decode_attribute_present [OF 2 [unfolded st1 st2] p2] obtain s2 c2 where
    g2: "get_attr j1 ''image_data'' = Some (JStr s2)" and
    d2: "decodeOutput pdu s2 (Some ''image_data'') = Inr c2" and
    j2: "j2 = set_attr j1 ''image_data'' (JStr (trim s2 t))" and
    cs2: "cs2 = cs1 @ [c2]"
    by auto
  have p3: "present j2 ''animation_url''"
    using assms(6) by (simp add: present_def j1 j2 get_attr_set_attr_other del: set_attr.simps get_attr.simps)
  from decode_attribute_present [OF 3 [unfolded st2] p3] obtain s3 c3 where
    g3: "get_attr j2 ''animation_url'' = Some (JStr s3)" and
    d3: "decodeOutput pdu s3 (Some ''animation_url'') = Inr c3" and
    j3: "jsn' = set_attr j2 ''animation_url'' (JStr (trim s3 t))" and
    cs3: "cs = cs2 @ [c3]"
    by auto
  from g2 have g2': "get_attr ?j ''image_data'' = Some (JStr s2)"
    by (simp add: j1 get_attr_set_attr_other del: set_attr.simps get_attr.simps)
  from g3 have g3': "get_attr ?j ''animation_url'' = Some (JStr s3)"
    by (simp add: j1 j2 get_attr_set_attr_other del: set_attr.simps get_attr.simps)
  have cs: "content r = [c1, c2, c3]"
    by (simp add: r cs3 cs2 cs1)
  have labels: "label c1 = Some ''image''" "label c2 = Some ''image_data''"
    "label c3 = Some ''animation_url''"
    using decodeOutput_Inr [OF d1] decodeOutput_Inr [OF d2] decodeOutput_Inr [OF d3] by simp_all
  have a1: "get_attr j1 ''image'' = Some (JStr (trim s1 t))"
    unfolding j1 using g1 by (rule get_attr_set_attr_same)
  have a2: "get_attr j2 ''image_data'' = Some (JStr (trim s2 t))"
    unfolding j2 using g2 by (rule get_attr_set_attr_same)
  have a3: "get_attr jsn' ''animation_url'' = Some (JStr (trim s3 t))"
    unfolding j3 using g3 by (rule get_attr_set_attr_same)
  have r1: "get_attr (json r) ''image'' = Some (JStr (trim s1 t))"
    using a1 by (simp add: r j3 j2 get_attr_set_attr_other del: set_attr.simps get_attr.simps)
  have r2: "get_attr (json r) ''image_data'' = Some (JStr (trim s2 t))"
    using a2 by (simp add: r j3 get_attr_set_attr_other del: set_attr.simps get_attr.simps)
  have r3: "get_attr (json r) ''animation_url'' = Some (JStr (trim s3 t))"
    using a3 by (simp add: r)
  from g1 g2' g3' d1 d2 d3 cs labels r1 [unfolded trim_cases] r2 [unfolded trim_cases]
    r3 [unfolded trim_cases]
  show ?thesis
    by (intro exI [of _ s1] exI [of _ s2] exI [of _ s3] exI [of _ c1] exI [of _ c2]
        exI [of _ c3]) simp
qed

theorem json_three_attributes_witness:
  \<open>parseDataUrl sample_token_uri =
     Some \<lparr>mediaType = ''application/json'',
           data = ''{"image":"a.png","image_data":"<svg/>","animation_url":"http://x.y/z"}''\<rparr> \<and>
   parseContractFunctionOutput parseDataUrl sample_JSON_parse sample_token_uri 0 3 =
     Inr \<lparr>gas = 0,
          content =
            [\<lparr>label = Some ''image'', Content.content = ''a.png'', contentType = PNG\<rparr>,
             \<lparr>label = Some ''image_data'',
              Content.content = ''data:image/svg+xml;base64,PHN2Zy8+'', contentType = SVG\<rparr>,
             \<lparr>label = Some ''animation_url'', Content.content = ''http://x.y/z'',
              contentType = Link\<rparr>],
          json = JObj [(''image'', JStr ''a.p... (5 bytes total)''),
                       (''image_data'', JStr ''<sv... (6 bytes total)''),
                       (''animation_url'', JStr ''htt... (12 bytes total)'')]\<rparr> \<and>
   (\<exists>s1 s2 s3 c1 c2 c3.
      decodeOutput parseDataUrl s1 (Some ''image'') = Inr c1 \<and>
      decodeOutput parseDataUrl s2 (Some ''image_data'') = Inr c2 \<and>
      decodeOutput parseDataUrl s3 (Some ''animation_url'') = Inr c3 \<and>
      [\<lparr>label = Some ''image'', Content.content = ''a.png'', contentType = PNG\<rparr>,
       \<lparr>label = Some ''image_data'',
        Content.content = ''data:image/svg+xml;base64,PHN2Zy8+'', contentType = SVG\<rparr>,
       \<lparr>label = Some ''animation_url'', Content.content = ''http://x.y/z'',
        contentType = Link\<rparr>] = [c1, c2, c3])\<close>
proof -
  let ?m = \<open>\<lparr>mediaType = ''application/json'',
           data = ''{"image":"a.png","image_data":"<svg/>","animation_url":"http://x.y/z"}''\<rparr>\<close>
  let ?kvs = "[(''image'', JStr ''a.png''), (''image_data'', JStr ''<svg/>''),
               (''animation_url'', JStr ''http://x.y/z'')]"
  let ?r = "\<lparr>gas = 0,
          content =
            [\<lparr>label = Some ''image'', Content.content = ''a.png'', contentType = PNG\<rparr>,
             \<lparr>label = Some ''image_data'',
              Content.content = ''data:image/svg+xml;base64,PHN2Zy8+'', contentType = SVG\<rparr>,
             \<lparr>label = Some ''animation_url'', Content.content = ''http://x.y/z'',
              contentType = Link\<rparr>],
          json = JObj [(''image'', JStr ''a.p... (5 bytes total)''),
                       (''image_data'', JStr ''<sv... (6 bytes total)''),
                       (''animation_url'', JStr ''htt... (12 bytes total)'')]\<rparr>"
  have a: "parseDataUrl sample_token_uri = Some ?m"
    by code_simp
  have b: "mediaType ?m = ''application/json''"
    by simp
  have c: "sample_JSON_parse (data ?m) = Inr (JObj ?kvs)"
    by code_simp
  have d: "present (JObj ?kvs) ''image''" "present (JObj ?kvs) ''image_data''"
    "present (JObj ?kvs) ''animation_url''"
    by code_simp+
  have e: "parseContractFunctionOutput parseDataUrl sample_JSON_parse sample_token_uri 0 3 = Inr ?r"
    by code_simp
  from json_three_attributes [of parseDataUrl sample_token_uri ?m sample_JSON_parse ?kvs 0 3 ?r,
      OF a b c d e]
  obtain s1 s2 s3 c1 c2 c3 where
    "decodeOutput parseDataUrl s1 (Some ''image'') = Inr c1"
    "decodeOutput parseDataUrl s2 (Some ''image_data'') = Inr c2"
    "decodeOutput parseDataUrl s3 (Some ''animation_url'') = Inr c3"
    "content ?r = [c1, c2, c3]"
    by blast
  then have "\<exists>s1 s2 s3 c1 c2 c3.
      decodeOutput parseDataUrl s1 (Some ''image'') = Inr c1 \<and>
      decodeOutput parseDataUrl s2 (Some ''image_data'') = Inr c2 \<and>
      decodeOutput parseDataUrl s3 (Some ''animation_url'') = Inr c3 \<and>
      [\<lparr>label = Some ''image'', Content.content = ''a.png'', contentType = PNG\<rparr>,
       \<lparr>label = Some ''image_data'',
        Content.content = ''data:image/svg+xml;base64,PHN2Zy8+'', contentType = SVG\<rparr>,
       \<lparr>label = Some ''animation_url'', Content.content = ''http://x.y/z'',
        contentType = Link\<rparr>] = [c1, c2, c3]"
    by simp blast
  with a e show ?thesis
    by blast
qed

text \<open>
  C5: when the sniffing classifies the input as \<open>Unknown\<close> the content decoder fails
  with the unsupported-format error, which names the label when one was given, and no
  content item returned by the decoder, by \<open>parseContractFunctionOutput\<close> or by
  \<open>parseTestOutput\<close> has the content type \<open>Unknown\<close>.
\<close>

theorem unknown_never_returned:
  "(classify (sniff_subtype (pdu output) output) output = Unknown \<longrightarrow>
      decodeOutput pdu output lbl = Inl (UnsupportedFormat (named_label lbl) output)) \<and>
   (classify (sniff_subtype (pdu output) output) output = Unknown \<and> l \<noteq> [] \<longrightarrow>
      decodeOutput pdu output (Some l) = Inl (UnsupportedFormat (Some l) output)) \<and>
   (\<forall>c. decodeOutput pdu output lbl = Inr c \<longrightarrow> contentType c \<noteq> Unknown) \<and>
   (\<forall>r. parseContractFunctionOutput pdu JP output g t = Inr r \<longrightarrow>
      list_all (\<lambda>c. contentType c \<noteq> Unknown) (content r)) \<and>
   (\<forall>r. parseTestOutput pdu JP output = Inr r \<longrightarrow>
      list_all (\<lambda>c. contentType c \<noteq> Unknown) (content r))"
proof (intro conjI allI impI)
  assume "classify (sniff_subtype (pdu output) output) output = Unknown"
  then show "decodeOutput pdu output lbl = Inl (UnsupportedFormat (named_label lbl) output)"
    by (rule decodeOutput_Unknown)
next
  assume "classify (sniff_subtype (pdu output) output) output = Unknown \<and> l \<noteq> []"
  then show "decodeOutput pdu output (Some l) = Inl (UnsupportedFormat (Some l) output)"
    using decodeOutput_Unknown [of pdu "output" "Some l"] by (simp add: named_label_def)
next
  fix c assume "decodeOutput pdu output lbl = Inr c"
  then show "contentType c \<noteq> Unknown"
    by (simp add: decodeOutput_Inr)
next
  fix r assume "parseContractFunctionOutput pdu JP output g t = Inr r"
  then show "list_all (\<lambda>c. contentType c \<noteq> Unknown) (content r)"
    by (simp add: parseContractFunctionOutput_Inr)
next
  fix r assume "parseTestOutput pdu JP output = Inr r"
  from parseTestOutput_Inr [OF this] show "list_all (\<lambda>c. contentType c \<noteq> Unknown) (content r)"
    using parseContractFunctionOutput_Inr by blast
qed

theorem unknown_never_returned_witness:
  "parseDataUrl ''foo.xyz'' = None \<and>
   classify (sniff_subtype (parseDataUrl ''foo.xyz'') ''foo.xyz'') ''foo.xyz'' = Unknown \<and>
   decodeOutput parseDataUrl ''foo.xyz'' (Some ''image'') =
     Inl (UnsupportedFormat (Some ''image'') ''foo.xyz'') \<and>
   decodeOutput parseDataUrl ''foo.xyz'' None = Inl (UnsupportedFormat None ''foo.xyz'') \<and>
   decodeOutput parseDataUrl ''a.png'' (Some ''image'') =
     Inr \<lparr>label = Some ''image'', Content.content = ''a.png'', contentType = PNG\<rparr> \<and>
   PNG \<noteq> Unknown \<and>
   parseContractFunctionOutput parseDataUrl sample_JSON_parse sample_token_uri 0 3 =
     Inr \<lparr>gas = 0,
          content =
            [\<lparr>label = Some ''image'', Content.content = ''a.png'', contentType = PNG\<rparr>,
             \<lparr>label = Some ''image_data'',
              Content.content = ''data:image/svg+xml;base64,PHN2Zy8+'', contentType = SVG\<rparr>,
             \<lparr>label = Some ''animation_url'', Content.content = ''http://x.y/z'',
              contentType = Link\<rparr>],
          json = JObj [(''image'', JStr ''a.p... (5 bytes total)''),
                       (''image_data'', JStr ''<sv... (6 bytes total)''),
                       (''animation_url'', JStr ''htt... (12 bytes total)'')]\<rparr> \<and>
   list_all (\<lambda>c. contentType c \<noteq> Unknown)
     [\<lparr>label = Some ''image'', Content.content = ''a.png'', contentType = PNG\<rparr>,
      \<lparr>label = Some ''image_data'',
       Content.content = ''data:image/svg+xml;base64,PHN2Zy8+'', contentType = SVG\<rparr>,
      \<lparr>label = Some ''animation_url'', Content.content = ''http://x.y/z'',
       contentType = Link\<rparr>] \<and>
   parseTestOutput parseDataUrl sample_JSON_parse sample_harness_log =
     Inr \<lparr>gas = 12345,
          content = [\<lparr>label = None, Content.content = ''http://example.com/a.png'',
                      contentType = PNG\<rparr>],
          json = JNull\<rparr> \<and>
   list_all (\<lambda>c. contentType c \<noteq> Unknown)
     [\<lparr>label = None, Content.content = ''http://example.com/a.png'', contentType = PNG\<rparr>]"
proof -
  let ?r1 = "\<lparr>gas = 0,
          content =
            [\<lparr>label = Some ''image'', Content.content = ''a.png'', contentType = PNG\<rparr>,
             \<lparr>label = Some ''image_data'',
              Content.content = ''data:image/svg+xml;base64,PHN2Zy8+'', contentType = SVG\<rparr>,
             \<lparr>label = Some ''animation_url'', Content.content = ''http://x.y/z'',
              contentType = Link\<rparr>],
          json = JObj [(''image'', JStr ''a.p... (5 bytes total)''),
                       (''image_data'', JStr ''<sv... (6 bytes total)''),
                       (''animation_url'', JStr ''htt... (12 bytes total)'')]\<rparr>"
  let ?r2 = "\<lparr>gas = 12345,
          content = [\<lparr>label = None, Content.content = ''http://example.com/a.png'',
                      contentType = PNG\<rparr>],
          json = JNull\<rparr>"
  let ?c = "\<lparr>label = Some ''image'', Content.content = ''a.png'', contentType = PNG\<rparr>"
  have a: "parseDataUrl ''foo.xyz'' = None"
    by code_simp
  have b: "classify (sniff_subtype (parseDataUrl ''foo.xyz'') ''foo.xyz'') ''foo.xyz'' = Unknown"
    by code_simp
  have n2: "named_label None = None"
    by (simp add: named_label_def)
  have ne: "''image'' \<noteq> []"
    by simp
  from unknown_never_returned [of parseDataUrl "''foo.xyz''" _ "''image''"] b ne
  have c: "decodeOutput parseDataUrl ''foo.xyz'' (Some ''image'') =
     Inl (UnsupportedFormat (Some ''image'') ''foo.xyz'')"
    by blast
  from unknown_never_returned [of parseDataUrl "''foo.xyz''" None] b
  have d: "decodeOutput parseDataUrl ''foo.xyz'' None = Inl (UnsupportedFormat None ''foo.xyz'')"
    unfolding n2 by blast
  have e: "decodeOutput parseDataUrl ''a.png'' (Some ''image'') = Inr ?c"
    by code_simp
  with unknown_never_returned [of parseDataUrl "''a.png''" "Some ''image''"]
  have "contentType ?c \<noteq> Unknown"
    by blast
  then have f: "PNG \<noteq> Unknown"
    by simp
  have g: "parseContractFunctionOutput parseDataUrl sample_JSON_parse sample_token_uri 0 3 = Inr ?r1"
    by code_simp
  with unknown_never_returned [of parseDataUrl sample_token_uri _ _ sample_JSON_parse 0 3]
  have "list_all (\<lambda>c. contentType c \<noteq> Unknown) (content ?r1)"
    by blast
  then have h: "list_all (\<lambda>c. contentType c \<noteq> Unknown)
     [\<lparr>label = Some ''image'', Content.content = ''a.png'', contentType = PNG\<rparr>,
      \<lparr>label = Some ''image_data'',
       Content.content = ''data:image/svg+xml;base64,PHN2Zy8+'', contentType = SVG\<rparr>,
      \<lparr>label = Some ''animation_url'', Content.content = ''http://x.y/z'',
       contentType = Link\<rparr>]"
    by (simp only: ParsedOutput.simps)
  have i: "parseTestOutput parseDataUrl sample_JSON_parse sample_harness_log = Inr ?r2"
    by code_simp
  with unknown_never_returned [of parseDataUrl sample_harness_log _ _ sample_JSON_parse]
  have "list_all (\<lambda>c. contentType c \<noteq> Unknown) (content ?r2)"
    by blast
  then have j: "list_all (\<lambda>c. contentType c \<noteq> Unknown)
     [\<lparr>label = None, Content.content = ''http://example.com/a.png'', contentType = PNG\<rparr>]"
    by (simp only: ParsedOutput.simps)
  from a b c d e f g h i j show ?thesis
    by blast
qed

text \<open>
  C6: a result returned by \<open>parseContractFunctionOutput\<close> or by \<open>parseTestOutput\<close> has
  a non-empty content sequence; the JSON branch fails with the no-attribute error when
  none of the three media attributes is present and truthy, and the other branch
  returns exactly one content item.
\<close>

theorem content_never_empty:
  "(\<forall>r. parseContractFunctionOutput pdu JP output g t = Inr r \<longrightarrow> content r \<noteq> []) \<and>
   (\<forall>r. parseTestOutput pdu JP output = Inr r \<longrightarrow> content r \<noteq> []) \<and>
   (json_of_output pdu JP output = Inr jsn \<and> truthy jsn \<and>
    \<not> present jsn ''image'' \<and> \<not> present jsn ''image_data'' \<and>
    \<not> present jsn ''animation_url'' \<longrightarrow>
      parseContractFunctionOutput pdu JP output g t = Inl (NoRenderableAttribute jsn)) \<and>
   (\<forall>r. json_of_output pdu JP output = Inr jsn \<and> \<not> truthy jsn \<and>
        parseContractFunctionOutput pdu JP output g t = Inr r \<longrightarrow>
      length (content r) = 1)"
proof (intro conjI allI impI)
  fix r assume "parseContractFunctionOutput pdu JP output g t = Inr r"
  then show "content r \<noteq> []"
    by (simp add: parseContractFunctionOutput_Inr)
next
  fix r assume "parseTestOutput pdu JP output = Inr r"
  from parseTestOutput_Inr [OF this] show "content r \<noteq> []"
    using parseContractFunctionOutput_Inr by blast
next
  assume "json_of_output pdu JP output = Inr jsn \<and> truthy jsn \<and>
    \<not> present jsn ''image'' \<and> \<not> present jsn ''image_data'' \<and>
    \<not> present jsn ''animation_url''"
  then show "parseContractFunctionOutput pdu JP output g t = Inl (NoRenderableAttribute jsn)"
    by (simp add: no_attribute_fails)
next
  fix r
  assume "json_of_output pdu JP output = Inr jsn \<and> \<not> truthy jsn \<and>
        parseContractFunctionOutput pdu JP output g t = Inr r"
  then have "json_of_output pdu JP output = Inr jsn" "\<not> truthy jsn"
    "parseContractFunctionOutput pdu JP output g t = Inr r"
    by simp_all
  from plain_branch_single [OF this] show "length (content r) = 1"
    by auto
qed

theorem content_never_empty_witness:
  \<open>parseContractFunctionOutput parseDataUrl sample_JSON_parse sample_token_uri 0 3 =
     Inr \<lparr>gas = 0,
          content =
            [\<lparr>label = Some ''image'', Content.content = ''a.png'', contentType = PNG\<rparr>,
             \<lparr>label = Some ''image_data'',
              Content.content = ''data:image/svg+xml;base64,PHN2Zy8+'', contentType = SVG\<rparr>,
             \<lparr>label = Some ''animation_url'', Content.content = ''http://x.y/z'',
              contentType = Link\<rparr>],
          json = JObj [(''image'', JStr ''a.p... (5 bytes total)''),
                       (''image_data'', JStr ''<sv... (6 bytes total)''),
                       (''animation_url'', JStr ''htt... (12 bytes total)'')]\<rparr> \<and>
   [\<lparr>label = Some ''image'', Content.content = ''a.png'', contentType = PNG\<rparr>,
    \<lparr>label = Some ''image_data'',
     Content.content = ''data:image/svg+xml;base64,PHN2Zy8+'', contentType = SVG\<rparr>,
    \<lparr>label = Some ''animation_url'', Content.content = ''http://x.y/z'',
     contentType = Link\<rparr>] \<noteq> [] \<and>
   parseTestOutput parseDataUrl sample_JSON_parse sample_harness_log =
     Inr \<lparr>gas = 12345,
          content = [\<lparr>label = None, Content.content = ''http://example.com/a.png'',
                      contentType = PNG\<rparr>],
          json = JNull\<rparr> \<and>
   [\<lparr>label = None, Content.content = ''http://example.com/a.png'', contentType = PNG\<rparr>] \<noteq> [] \<and>
   json_of_output parseDataUrl sample_JSON_parse sample_bare_uri =
     Inr (JObj [(''name'', JStr ''n'')]) \<and>
   truthy (JObj [(''name'', JStr ''n'')]) \<and>
   \<not> present (JObj [(''name'', JStr ''n'')]) ''image'' \<and>
   \<not> present (JObj [(''name'', JStr ''n'')]) ''image_data'' \<and>
   \<not> present (JObj [(''name'', JStr ''n'')]) ''animation_url'' \<and>
   parseContractFunctionOutput parseDataUrl sample_JSON_parse sample_bare_uri 0 100 =
     Inl (NoRenderableAttribute (JObj [(''name'', JStr ''n'')])) \<and>
   json_of_output parseDataUrl sample_JSON_parse ''http://example.com/a.png'' = Inr JNull \<and>
   \<not> truthy JNull \<and>
   parseContractFunctionOutput parseDataUrl sample_JSON_parse ''http://example.com/a.png'' 0 100 =
     Inr \<lparr>gas = 0,
          content = [\<lparr>label = None, Content.content = ''http://example.com/a.png'',
                      contentType = PNG\<rparr>],
          json = JNull\<rparr> \<and>
   length [\<lparr>label = None, Content.content = ''http://example.com/a.png'',
            contentType = PNG\<rparr>] = 1\<close>
proof -
  let ?cs = "[\<lparr>label = Some ''image'', Content.content = ''a.png'', contentType = PNG\<rparr>,
             \<lparr>label = Some ''image_data'',
              Content.content = ''data:image/svg+xml;base64,PHN2Zy8+'', contentType = SVG\<rparr>,
             \<lparr>label = Some ''animation_url'', Content.content = ''http://x.y/z'',
              contentType = Link\<rparr>]"
  let ?r1 = "\<lparr>gas = 0, content = ?cs,
          json = JObj [(''image'', JStr ''a.p... (5 bytes total)''),
                       (''image_data'', JStr ''<sv... (6 bytes total)''),
                       (''animation_url'', JStr ''htt... (12 bytes total)'')]\<rparr>"
  let ?c = "\<lparr>label = None, Content.content = ''http://example.com/a.png'', contentType = PNG\<rparr>"
  let ?r2 = "\<lparr>gas = 12345, content = [?c], json = JNull\<rparr>"
  let ?r3 = "\<lparr>gas = 0, content = [?c], json = JNull\<rparr>"
  let ?j = "JObj [(''name'', JStr ''n'')]"
  have a: "parseContractFunctionOutput parseDataUrl sample_JSON_parse sample_token_uri 0 3 = Inr ?r1"
    by code_simp
  with content_never_empty [of parseDataUrl sample_JSON_parse sample_token_uri 0 3]
  have "content ?r1 \<noteq> []"
    by blast
  then have b: "?cs \<noteq> []"
    by simp
  have c: "parseTestOutput parseDataUrl sample_JSON_parse sample_harness_log = Inr ?r2"
    by code_simp
  with content_never_empty [of parseDataUrl sample_JSON_parse sample_harness_log]
  have "content ?r2 \<noteq> []"
    by blast
  then have d: "[?c] \<noteq> []"
    by simp
  have e: "json_of_output parseDataUrl sample_JSON_parse sample_bare_uri = Inr ?j"
    by code_simp
  have f: "truthy ?j" "\<not> present ?j ''image''" "\<not> present ?j ''image_data''"
    "\<not> present ?j ''animation_url''"
    by code_simp+
  from content_never_empty [of parseDataUrl sample_JSON_parse sample_bare_uri 0 100 ?j] e f
  have g: "parseContractFunctionOutput parseDataUrl sample_JSON_parse sample_bare_uri 0 100 =
     Inl (NoRenderableAttribute ?j)"
    by blast
  have h: "json_of_output parseDataUrl sample_JSON_parse ''http://example.com/a.png'' = Inr JNull"
    by code_simp
  have i: "\<not> truthy JNull"
    by simp
  have j: "parseContractFunctionOutput parseDataUrl sample_JSON_parse
             ''http://example.com/a.png'' 0 100 = Inr ?r3"
    by code_simp
  from content_never_empty [of parseDataUrl sample_JSON_parse "''http://example.com/a.png''"
      0 100 JNull] h i j
  have "length (content ?r3) = 1"
    by blast
  then have k: "length [?c] = 1"
    by simp
  from a b c d e f g h i j k show ?thesis
    by blast
qed

section \<open>Claims about the harness-output extractor\<close>






end
